theory Spec2Isabelle
  imports
    Complex_Main
    "HOL-Library.Char_ord"
    "HOL-Library.List_Lexorder"
    "HOL-Library.Product_Lexorder"
    "HOL-Library.Multiset"
begin

section \<open>Data model\<close>

text \<open>
  The dashboard script \<^verbatim>\<open>app.py\<close> reads two CSV files into pandas DataFrames and
  derives a per-year top-10 ranking and the layout of a four-quadrant scatter plot.

  A float64 cell is either missing (pandas' NaN, which is what an empty CSV field becomes)
  or a number. Numbers are idealised as reals: rounding and the infinities of IEEE
  arithmetic are not modelled, NaN is.
\<close>

datatype float64 = NaN | Num real

text \<open>
  Both files have the same shape: a name column (\<^verbatim>\<open>country\<close> in
  \<^verbatim>\<open>countrylevel.csv\<close>, \<^verbatim>\<open>industry\<close> in \<^verbatim>\<open>industrylevel.csv\<close>), the
  column \<^verbatim>\<open>year\<close> and the three index columns. The field \<open>entity\<close> stands for the name
  column of either file. A DataFrame is the list of its rows in index order. Strings are
  byte strings; their order is the lexicographic order on bytes, which on UTF-8 text is
  Python's order on code points.
\<close>

record row =
  entity :: string
  year :: int
  ccii :: float64
  gwe :: float64
  gwghg :: float64

text \<open>The three index columns that the script selects by name.\<close>

datatype column = Ccii | Gwe | Gwghg

fun col :: "column \<Rightarrow> 'a row_scheme \<Rightarrow> float64" where
  "col Ccii r = ccii r"
| "col Gwe r = gwe r"
| "col Gwghg r = gwghg r"

section \<open>Top-10 ranking\<close>

text \<open>
  \<^verbatim>\<open>
  df_rank = df.copy()
  df_rank["rank"] = (
      df_rank
      .groupby("year")[metric]
      .rank(method="first", ascending=False)
  )
  df_rank = df_rank[df_rank["rank"] <= 10]
  df_rank = df_rank.sort_values(["country", "year"])
  \<close>

  pandas' \<^verbatim>\<open>rank(method="first", ascending=False)\<close> within a group gives a row with a
  present value its 1-based position in the descending order of the group's present values,
  equal values in the order they appear in the frame; a row whose value is NaN gets rank NaN
  (\<^verbatim>\<open>na_option="keep"\<close> is the default) and is not counted for the others. Row \<open>j\<close>
  \<^emph>\<open>precedes\<close> row \<open>i\<close> when it is in the same year group and comes before \<open>i\<close> in that
  order; the rank of row \<open>i\<close> is one more than the number of rows that precede it. The rank
  column is a float64 column.
\<close>

definition precedes :: "column \<Rightarrow> row list \<Rightarrow> nat \<Rightarrow> nat \<Rightarrow> bool" where
  "precedes metric df j i \<longleftrightarrow>
     year (df ! j) = year (df ! i) \<and>
     (case (col metric (df ! j), col metric (df ! i)) of
        (Num w, Num v) \<Rightarrow> v < w \<or> (w = v \<and> j < i)
      | _ \<Rightarrow> False)"

definition ahead :: "column \<Rightarrow> row list \<Rightarrow> nat \<Rightarrow> nat" where
  "ahead metric df i = length (filter (\<lambda>j. precedes metric df j i) [0..<length df])"

definition rank_first :: "column \<Rightarrow> row list \<Rightarrow> nat \<Rightarrow> float64" where
  "rank_first metric df i =
     (case col metric (df ! i) of
        NaN \<Rightarrow> NaN
      | Num v \<Rightarrow> Num (real (Suc (ahead metric df i))))"

definition groupby_rank :: "column \<Rightarrow> row list \<Rightarrow> float64 list" where
  "groupby_rank metric df = map (rank_first metric df) [0..<length df]"

record ranked_row = row +
  rank :: float64

definition with_rank :: "row \<Rightarrow> float64 \<Rightarrow> ranked_row" where
  "with_rank r k =
     \<lparr>entity = entity r, year = year r, ccii = ccii r, gwe = gwe r, gwghg = gwghg r, rank = k\<rparr>"

text \<open>The comparison \<^verbatim>\<open>df_rank["rank"] <= 10\<close>: false on NaN.\<close>

fun le10 :: "float64 \<Rightarrow> bool" where
  "le10 NaN = False"
| "le10 (Num k) = (k \<le> 10)"

text \<open>The frame after the assignment of the rank column.\<close>

definition assign_rank :: "column \<Rightarrow> row list \<Rightarrow> ranked_row list" where
  "assign_rank metric df = map2 with_rank df (groupby_rank metric df)"

text \<open>
  \<^verbatim>\<open>sort_values\<close> on several columns is a stable lexicographic sort, as is \<open>sort_key\<close>
  with a pair as the key.
\<close>

definition df_rank :: "column \<Rightarrow> row list \<Rightarrow> ranked_row list" where
  "df_rank metric df =
     sort_key (\<lambda>r. (entity r, year r)) (filter (\<lambda>r. le10 (rank r)) (assign_rank metric df))"

text \<open>
  Two notions that only the proofs use: the rows of a year group that get a rank, and the
  rows of a year that survive the filter, both as sets or lists of positions in the frame.
\<close>

definition grp :: "column \<Rightarrow> row list \<Rightarrow> int \<Rightarrow> nat set" where
  "grp metric df y = {i. i < length df \<and> year (df ! i) = y \<and> col metric (df ! i) \<noteq> NaN}"

definition kept :: "column \<Rightarrow> row list \<Rightarrow> int \<Rightarrow> nat list" where
  "kept metric df y =
     filter (\<lambda>i. year (df ! i) = y \<and> le10 (rank_first metric df i)) [0..<length df]"

text \<open>
  The same ranks read as an algorithm: take the rows of a year that have a value, sort them
  by descending value with a stable sort, and number them from 1. \<open>group_order\<close> is that
  sorted list of positions; that the row at place \<open>k\<close> of it has rank \<open>k + 1\<close> is proved
  below (\<open>rank_is_position\<close>).
\<close>

fun num :: "float64 \<Rightarrow> real" where
  "num (Num v) = v"
| "num NaN = 0"

definition group_order :: "column \<Rightarrow> row list \<Rightarrow> int \<Rightarrow> nat list" where
  "group_order metric df y =
     sort_key (\<lambda>i. - num (col metric (df ! i)))
       (filter (\<lambda>i. year (df ! i) = y \<and> col metric (df ! i) \<noteq> NaN) [0..<length df])"

section \<open>Quadrant layout of the industry scatter plot\<close>

text \<open>
  pandas' reductions \<^verbatim>\<open>mean()\<close>, \<^verbatim>\<open>min()\<close> and \<^verbatim>\<open>max()\<close> skip missing values
  (\<^verbatim>\<open>skipna=True\<close> is the default) and return NaN, without raising, on a column that has
  no present value; an empty column is one. On a column that holds both infinities pandas'
  mean is NaN too; infinities are outside this model, and nothing below says that these
  are the only columns with the result NaN.
\<close>

fun dropna :: "float64 list \<Rightarrow> real list" where
  "dropna [] = []"
| "dropna (NaN # vs) = dropna vs"
| "dropna (Num v # vs) = v # dropna vs"

definition mean_f64 :: "float64 list \<Rightarrow> float64" where
  "mean_f64 vs =
     (case dropna vs of [] \<Rightarrow> NaN | x # xs \<Rightarrow> Num (sum_list (x # xs) / real (length (x # xs))))"

definition min_f64 :: "float64 list \<Rightarrow> float64" where
  "min_f64 vs = (case dropna vs of [] \<Rightarrow> NaN | x # xs \<Rightarrow> Num (fold min xs x))"

definition max_f64 :: "float64 list \<Rightarrow> float64" where
  "max_f64 vs = (case dropna vs of [] \<Rightarrow> NaN | x # xs \<Rightarrow> Num (fold max xs x))"

text \<open>The product of a float64 and a literal: NaN stays NaN.\<close>

fun times_f64 :: "float64 \<Rightarrow> real \<Rightarrow> float64" where
  "times_f64 NaN c = NaN"
| "times_f64 (Num v) c = Num (v * c)"

text \<open>
  \<^verbatim>\<open>
  x_center = 0
  y_center = df_ind[y_metric].mean()
  fig.add_shape(type="line", x0=x_center, x1=x_center,
                y0=df_ind[y_metric].min(), y1=df_ind[y_metric].max(), ...)
  fig.add_shape(type="line", x0=df_ind["ccii"].min(), x1=df_ind["ccii"].max(),
                y0=y_center, y1=y_center, ...)
  annotations = [
      dict(x=df_ind["ccii"].max()*0.6, y=df_ind[y_metric].max()*0.9, text="High CCII...", ...),
      dict(x=df_ind["ccii"].min()*0.6, y=df_ind[y_metric].max()*0.9, text="Low CCII...", ...),
      dict(x=df_ind["ccii"].min()*0.6, y=df_ind[y_metric].min()*0.9, text="Low CCII...", ...),
      dict(x=df_ind["ccii"].max()*0.6, y=df_ind[y_metric].min()*0.9, text="High CCII...", ...),
  ]
  fig.update_layout(annotations=annotations)
  \<close>
  The fields of a line shape and of an annotation carry a prefix (\<open>line_x0\<close> for
  \<^verbatim>\<open>x0\<close>, \<open>ann_x\<close> for \<^verbatim>\<open>x\<close>); the styling arguments, which are constants, are left out.
\<close>

record line_shape =
  line_x0 :: float64
  line_x1 :: float64
  line_y0 :: float64
  line_y1 :: float64

record annotation =
  ann_x :: float64
  ann_y :: float64
  ann_text :: string

definition x_center :: float64 where
  "x_center = Num 0"

definition y_center :: "column \<Rightarrow> row list \<Rightarrow> float64" where
  "y_center y_metric df_ind = mean_f64 (map (col y_metric) df_ind)"

definition annotations :: "column \<Rightarrow> row list \<Rightarrow> annotation list" where
  "annotations y_metric df_ind =
     [\<lparr>ann_x = times_f64 (max_f64 (map ccii df_ind)) 0.6,
       ann_y = times_f64 (max_f64 (map (col y_metric) df_ind)) 0.9,
       ann_text = ''High CCII<br>High Greenwashing<br>(Symbolic Commitment)''\<rparr>,
      \<lparr>ann_x = times_f64 (min_f64 (map ccii df_ind)) 0.6,
       ann_y = times_f64 (max_f64 (map (col y_metric) df_ind)) 0.9,
       ann_text = ''Low CCII<br>High Greenwashing<br>(Formalist / Passive)''\<rparr>,
      \<lparr>ann_x = times_f64 (min_f64 (map ccii df_ind)) 0.6,
       ann_y = times_f64 (min_f64 (map (col y_metric) df_ind)) 0.9,
       ann_text = ''Low CCII<br>Low Greenwashing<br>(Low-risk Industry)''\<rparr>,
      \<lparr>ann_x = times_f64 (max_f64 (map ccii df_ind)) 0.6,
       ann_y = times_f64 (min_f64 (map (col y_metric) df_ind)) 0.9,
       ann_text = ''High CCII<br>Low Greenwashing<br>(Substantive Commitment)''\<rparr>]"

text \<open>
  \<^verbatim>\<open>px.scatter(df_ind, x="ccii", y=y_metric, text="industry", animation_frame="year")\<close>
  builds one animation frame for each year of the table, in the order in which the years
  first appear, holding the points of that year's rows. A Plotly frame can carry layout
  entries of its own besides its data; the frames that \<^verbatim>\<open>px.scatter\<close> builds carry none.
\<close>

record point =
  point_text :: string
  point_x :: float64
  point_y :: float64

record frame =
  frame_name :: int
  frame_data :: "point list"
  frame_shapes :: "line_shape list option"
  frame_annotations :: "annotation list option"

record figure =
  frames :: "frame list"
  layout_shapes :: "line_shape list"
  layout_annotations :: "annotation list"

definition scatter :: "column \<Rightarrow> row list \<Rightarrow> figure" where
  "scatter y_metric df_ind =
     \<lparr>frames =
        map (\<lambda>y. \<lparr>frame_name = y,
                   frame_data =
                     map (\<lambda>r. \<lparr>point_text = entity r, point_x = ccii r, point_y = col y_metric r\<rparr>)
                       (filter (\<lambda>r. year r = y) df_ind),
                   frame_shapes = None,
                   frame_annotations = None\<rparr>)
          (rev (remdups (rev (map year df_ind)))),
      layout_shapes = [],
      layout_annotations = []\<rparr>"

text \<open>
  \<^verbatim>\<open>fig.add_shape(...)\<close> appends a shape to the shapes of the figure's layout, and
  \<^verbatim>\<open>fig.update_layout(annotations=...)\<close> sets the annotations of the figure's layout.
  Neither touches a frame.
\<close>

definition add_shape :: "line_shape \<Rightarrow> figure \<Rightarrow> figure" where
  "add_shape s f = f\<lparr>layout_shapes := layout_shapes f @ [s]\<rparr>"

definition update_layout :: "annotation list \<Rightarrow> figure \<Rightarrow> figure" where
  "update_layout anns f = f\<lparr>layout_annotations := anns\<rparr>"

text \<open>
  The figure of the industry section after the statements above, in their order: the
  scatter plot, the vertical line at \<open>x_center\<close> over the range of the y column, the
  horizontal line at \<open>y_center\<close> over the range of the x column, the annotations. The
  later \<^verbatim>\<open>update_layout\<close> of the script sets colours, titles and margins only.
\<close>

definition fig :: "column \<Rightarrow> row list \<Rightarrow> figure" where
  "fig y_metric df_ind =
     update_layout (annotations y_metric df_ind)
       (add_shape
          \<lparr>line_x0 = min_f64 (map ccii df_ind), line_x1 = max_f64 (map ccii df_ind),
           line_y0 = y_center y_metric df_ind, line_y1 = y_center y_metric df_ind\<rparr>
          (add_shape
             \<lparr>line_x0 = x_center, line_x1 = x_center,
              line_y0 = min_f64 (map (col y_metric) df_ind),
              line_y1 = max_f64 (map (col y_metric) df_ind)\<rparr>
             (scatter y_metric df_ind)))"

text \<open>
  What Plotly draws while a frame is current: the data of the frame, and the shapes and
  annotations of the figure's layout unless the frame carries its own, which then take
  their place.
\<close>

definition shown_shapes :: "figure \<Rightarrow> frame \<Rightarrow> line_shape list" where
  "shown_shapes f fr = (case frame_shapes fr of None \<Rightarrow> layout_shapes f | Some ss \<Rightarrow> ss)"

definition shown_annotations :: "figure \<Rightarrow> frame \<Rightarrow> annotation list" where
  "shown_annotations f fr =
     (case frame_annotations fr of None \<Rightarrow> layout_annotations f | Some anns \<Rightarrow> anns)"

section \<open>Loading the two tables\<close>

text \<open>
  \<^verbatim>\<open>
  @st.cache_data
  def load_data():
      df = pd.read_csv("countrylevel.csv")
      df["year"] = df["year"].astype(int)
      return df

  @st.cache_data
  def load_industry_data():
      df_ind = pd.read_csv("industrylevel.csv")
      df_ind["year"] = df_ind["year"].astype(int)
      return df_ind
  \<close>

  The script defines no exception class and has no \<^verbatim>\<open>try\<close> or \<^verbatim>\<open>raise\<close>: what fails in
  a loader is the library call, and its exception leaves the loader as it is. The first three
  constructors are the exceptions of the calls above (\<open>ParserError\<close> stands for the errors
  of pandas' parser). \<open>DataLoadError\<close> and \<open>InsufficientDataError\<close> are the two error
  classes that the specification names; no definition below returns them.
\<close>

datatype exn = FileNotFoundError | ParserError | ValueError | DataLoadError | InsufficientDataError

text \<open>
  A value of the \<^verbatim>\<open>year\<close> column as \<^verbatim>\<open>read_csv\<close> leaves it: an integer, a float
  (NaN for an empty field) or, in a column that holds a field that is not a number, the
  text of the field.
\<close>

datatype cell = IntCell int | FloatCell float64 | StrCell string

record raw_row =
  raw_entity :: string
  raw_year :: cell
  raw_ccii :: float64
  raw_gwe :: float64
  raw_gwghg :: float64

text \<open>
  What a path holds: bytes that pandas' parser rejects, or a table with the five columns.
  A path that holds nothing is a missing file.
\<close>

datatype csv_file = Unparseable | Csv "raw_row list"

type_synonym filesystem = "string \<Rightarrow> csv_file option"

definition read_csv :: "filesystem \<Rightarrow> string \<Rightarrow> exn + raw_row list" where
  "read_csv fs path =
     (case fs path of
        None \<Rightarrow> Inl FileNotFoundError
      | Some Unparseable \<Rightarrow> Inl ParserError
      | Some (Csv rows) \<Rightarrow> Inr rows)"

text \<open>
  \<^verbatim>\<open>astype(int)\<close> on one value. A float is truncated towards zero, NaN is refused with a
  ValueError; a text goes through Python's \<^verbatim>\<open>int()\<close>, which is the parameter
  \<open>py_int\<close> (\<open>None\<close> where \<^verbatim>\<open>int()\<close> raises its ValueError). The integers are not
  bounded here.
\<close>

fun astype_int :: "(string \<Rightarrow> int option) \<Rightarrow> cell \<Rightarrow> exn + int" where
  "astype_int py_int (IntCell n) = Inr n"
| "astype_int py_int (FloatCell NaN) = Inl ValueError"
| "astype_int py_int (FloatCell (Num v)) = Inr (if 0 \<le> v then \<lfloor>v\<rfloor> else \<lceil>v\<rceil>)"
| "astype_int py_int (StrCell s) = (case py_int s of None \<Rightarrow> Inl ValueError | Some n \<Rightarrow> Inr n)"

text \<open>The conversion of a column: the first value that is refused ends it.\<close>

fun astype_int_column :: "(string \<Rightarrow> int option) \<Rightarrow> cell list \<Rightarrow> exn + int list" where
  "astype_int_column py_int [] = Inr []"
| "astype_int_column py_int (c # cs) =
     (case astype_int py_int c of
        Inl e \<Rightarrow> Inl e
      | Inr n \<Rightarrow>
          (case astype_int_column py_int cs of
             Inl e \<Rightarrow> Inl e
           | Inr ns \<Rightarrow> Inr (n # ns)))"

text \<open>The assignment \<^verbatim>\<open>df["year"] = ...\<close> of the converted column, row by row.\<close>

definition set_year :: "raw_row \<Rightarrow> int \<Rightarrow> row" where
  "set_year r n =
     \<lparr>entity = raw_entity r, year = n, ccii = raw_ccii r, gwe = raw_gwe r, gwghg = raw_gwghg r\<rparr>"

text \<open>The bodies of the two loaders, without the decorator.\<close>

definition load_data_body :: "(string \<Rightarrow> int option) \<Rightarrow> filesystem \<Rightarrow> exn + row list" where
  "load_data_body py_int fs =
     (case read_csv fs ''countrylevel.csv'' of
        Inl e \<Rightarrow> Inl e
      | Inr df \<Rightarrow>
          (case astype_int_column py_int (map raw_year df) of
             Inl e \<Rightarrow> Inl e
           | Inr ys \<Rightarrow> Inr (map2 set_year df ys)))"

definition load_industry_data_body :: "(string \<Rightarrow> int option) \<Rightarrow> filesystem \<Rightarrow> exn + row list" where
  "load_industry_data_body py_int fs =
     (case read_csv fs ''industrylevel.csv'' of
        Inl e \<Rightarrow> Inl e
      | Inr df_ind \<Rightarrow>
          (case astype_int_column py_int (map raw_year df_ind) of
             Inl e \<Rightarrow> Inl e
           | Inr ys \<Rightarrow> Inr (map2 set_year df_ind ys)))"

text \<open>
  Streamlit's \<^verbatim>\<open>st.cache_data\<close>: the cache is keyed by the decorated function (and its
  arguments, of which the loaders have none). A call whose key is in the cache returns the
  stored value and does not run the body; otherwise the body runs, and its value is stored
  when it returns one; an exception is not stored. The cache is the state that the calls
  pass on.
\<close>

type_synonym cache = "string \<Rightarrow> row list option"

definition cache_data :: "string \<Rightarrow> (exn + row list) \<Rightarrow> cache \<Rightarrow> (exn + row list) \<times> cache" where
  "cache_data key body c =
     (case c key of
        Some df \<Rightarrow> (Inr df, c)
      | None \<Rightarrow>
          (case body of
             Inl e \<Rightarrow> (Inl e, c)
           | Inr df \<Rightarrow> (Inr df, c(key \<mapsto> df))))"

definition load_data :: "(string \<Rightarrow> int option) \<Rightarrow> filesystem \<Rightarrow> cache \<Rightarrow> (exn + row list) \<times> cache" where
  "load_data py_int fs c = cache_data ''load_data'' (load_data_body py_int fs) c"

definition load_industry_data ::
  "(string \<Rightarrow> int option) \<Rightarrow> filesystem \<Rightarrow> cache \<Rightarrow> (exn + row list) \<times> cache" where
  "load_industry_data py_int fs c =
     cache_data ''load_industry_data'' (load_industry_data_body py_int fs) c"

section \<open>Sample inputs\<close>

text \<open>The tables and files at which the theorems below are instantiated.\<close>

definition sample_country :: "row list" where
  "sample_country =
     [\<lparr>entity = ''A'', year = 2020, ccii = Num 5, gwe = Num 1, gwghg = NaN\<rparr>,
      \<lparr>entity = ''B'', year = 2020, ccii = Num 5, gwe = NaN, gwghg = NaN\<rparr>,
      \<lparr>entity = ''C'', year = 2020, ccii = Num 3, gwe = Num 2, gwghg = NaN\<rparr>,
      \<lparr>entity = ''A'', year = 2019, ccii = Num 1, gwe = Num 7, gwghg = NaN\<rparr>]"

definition sample_ties :: "row list" where
  "sample_ties =
     [\<lparr>entity = ''A'', year = 2020, ccii = Num 5, gwe = NaN, gwghg = Num 9\<rparr>,
      \<lparr>entity = ''B'', year = 2020, ccii = Num 5, gwe = NaN, gwghg = Num 7\<rparr>,
      \<lparr>entity = ''C'', year = 2020, ccii = Num 3, gwe = NaN, gwghg = Num 7\<rparr>]"

definition sample_missing :: "row list" where
  "sample_missing = [\<lparr>entity = ''A'', year = 2020, ccii = NaN, gwe = NaN, gwghg = NaN\<rparr>]"

definition sample_industry :: "row list" where
  "sample_industry =
     [\<lparr>entity = ''Energy'', year = 2020, ccii = Num (-2), gwe = Num 0, gwghg = Num 1\<rparr>,
      \<lparr>entity = ''Retail'', year = 2020, ccii = Num 4, gwe = Num 10, gwghg = Num 3\<rparr>,
      \<lparr>entity = ''Energy'', year = 2021, ccii = Num 1, gwe = Num 2, gwghg = NaN\<rparr>]"

definition sample_gap :: "row list" where
  "sample_gap =
     [\<lparr>entity = ''Energy'', year = 2020, ccii = Num 1, gwe = NaN, gwghg = NaN\<rparr>,
      \<lparr>entity = ''Retail'', year = 2020, ccii = Num 2, gwe = Num 4, gwghg = NaN\<rparr>]"

definition sample_py_int :: "string \<Rightarrow> int option" where
  "sample_py_int s = (if s = ''2020'' then Some 2020 else if s = ''2021'' then Some 2021 else None)"

definition sample_raw :: "raw_row list" where
  "sample_raw =
     [\<lparr>raw_entity = ''A'', raw_year = IntCell 2020, raw_ccii = Num 5, raw_gwe = NaN, raw_gwghg = NaN\<rparr>,
      \<lparr>raw_entity = ''B'', raw_year = IntCell 2021, raw_ccii = Num 3, raw_gwe = NaN, raw_gwghg = NaN\<rparr>]"

definition sample_loaded :: "row list" where
  "sample_loaded =
     [\<lparr>entity = ''A'', year = 2020, ccii = Num 5, gwe = NaN, gwghg = NaN\<rparr>,
      \<lparr>entity = ''B'', year = 2021, ccii = Num 3, gwe = NaN, gwghg = NaN\<rparr>]"

definition sample_raw_bad :: "raw_row list" where
  "sample_raw_bad =
     [\<lparr>raw_entity = ''A'', raw_year = StrCell ''2020'', raw_ccii = Num 5, raw_gwe = NaN, raw_gwghg = NaN\<rparr>,
      \<lparr>raw_entity = ''B'', raw_year = StrCell ''n/a'', raw_ccii = Num 3, raw_gwe = NaN, raw_gwghg = NaN\<rparr>]"

definition no_files :: filesystem where
  "no_files = (\<lambda>path. None)"

definition good_files :: filesystem where
  "good_files = (\<lambda>path. Some (Csv sample_raw))"

definition bad_year_files :: filesystem where
  "bad_year_files = (\<lambda>path. Some (Csv sample_raw_bad))"

definition empty_cache :: cache where
  "empty_cache = (\<lambda>key. None)"

section \<open>Properties of the ranking\<close>

subsection \<open>The order behind the ranks\<close>

text \<open>
  Within a year group, \<open>precedes\<close> is a strict linear order on the rows that have a value:
  the rank of a row counts the rows before it, so the ranks of a group of \<open>n\<close> such rows
  are the numbers from 1 to \<open>n\<close>, each once.
\<close>

lemma precedes_irrefl: "\<not> precedes m df i i"
  by (auto simp: precedes_def split: float64.splits)

lemma precedes_trans:
  "precedes m df i j \<Longrightarrow> precedes m df j k \<Longrightarrow> precedes m df i k"
  by (auto simp: precedes_def split: float64.splits)

lemma precedes_total:
  "i \<noteq> j \<Longrightarrow> year (df ! i) = year (df ! j) \<Longrightarrow> col m (df ! i) \<noteq> NaN
   \<Longrightarrow> col m (df ! j) \<noteq> NaN \<Longrightarrow> precedes m df i j \<or> precedes m df j i"
  by (auto simp: precedes_def split: float64.splits)

lemma precedes_group:
  "precedes m df j i
   \<Longrightarrow> year (df ! j) = year (df ! i) \<and> col m (df ! j) \<noteq> NaN \<and> col m (df ! i) \<noteq> NaN"
  by (auto simp: precedes_def split: float64.splits)

lemma ahead_card: "ahead m df i = card {j. j < length df \<and> precedes m df j i}"
proof -
  have "{k. k < length [0..<length df] \<and> precedes m df ([0..<length df] ! k) i}
        = {j. j < length df \<and> precedes m df j i}"
    by auto
  then show ?thesis
    unfolding ahead_def length_filter_conv_card by simp
qed

lemma ahead_mono:
  assumes "i < length df" "precedes m df i j"
  shows "ahead m df i < ahead m df j"
proof -
  have "{k. k < length df \<and> precedes m df k i} \<subset> {k. k < length df \<and> precedes m df k j}"
    using assms precedes_trans[of m df _ i j] precedes_irrefl[of m df i] by blast
  moreover have "finite {k. k < length df \<and> precedes m df k j}" by simp
  ultimately show ?thesis unfolding ahead_card by (rule psubset_card_mono[rotated])
qed

lemma grp_card: "card (grp m df y) = length (filter (\<lambda>r. year r = y \<and> col m r \<noteq> NaN) df)"
  unfolding grp_def by (simp add: length_filter_conv_card)

lemma ahead_bound:
  assumes "i \<in> grp m df y"
  shows "ahead m df i < card (grp m df y)"
proof -
  have "{k. k < length df \<and> precedes m df k i} \<subset> grp m df y"
    using assms precedes_group[of m df _ i] precedes_irrefl[of m df i]
    unfolding grp_def by auto
  moreover have "finite (grp m df y)" unfolding grp_def by simp
  ultimately show ?thesis unfolding ahead_card by (rule psubset_card_mono[rotated])
qed

lemma ahead_inj: "inj_on (ahead m df) (grp m df y)"
proof (rule inj_onI)
  fix i j
  assume ij: "i \<in> grp m df y" "j \<in> grp m df y" and eq: "ahead m df i = ahead m df j"
  show "i = j"
  proof (rule ccontr)
    assume "i \<noteq> j"
    then have "precedes m df i j \<or> precedes m df j i"
      using ij precedes_total[of i j df m] unfolding grp_def by auto
    then show False
      using ahead_mono[of i df m j] ahead_mono[of j df m i] ij eq
      unfolding grp_def by auto
  qed
qed

lemma ahead_image: "ahead m df ` grp m df y = {0..<card (grp m df y)}"
proof (rule card_subset_eq)
  show "finite {0..<card (grp m df y)}" by simp
  show "ahead m df ` grp m df y \<subseteq> {0..<card (grp m df y)}"
    using ahead_bound by auto
  show "card (ahead m df ` grp m df y) = card {0..<card (grp m df y)}"
    by (simp add: card_image ahead_inj)
qed

subsection \<open>From positions to the rows of the frame\<close>

lemma groupby_rank_nth: "i < length df \<Longrightarrow> groupby_rank m df ! i = rank_first m df i"
  by (simp add: groupby_rank_def)

lemma assign_rank_conv:
  "assign_rank m df = map (\<lambda>i. with_rank (df ! i) (rank_first m df i)) [0..<length df]"
  unfolding assign_rank_def groupby_rank_def
  by (rule nth_equalityI) simp_all

lemma rank_with_rank [simp]: "rank (with_rank r k) = k"
  and year_with_rank [simp]: "year (with_rank r k) = year r"
  and entity_with_rank [simp]: "entity (with_rank r k) = entity r"
  and col_with_rank [simp]: "col m (with_rank r k) = col m r"
  by (cases m; simp add: with_rank_def)+

lemma le10_rank_first:
  "le10 (rank_first m df i) \<longleftrightarrow> col m (df ! i) \<noteq> NaN \<and> ahead m df i < 10"
  by (auto simp: rank_first_def split: float64.splits)

lemma set_kept: "set (kept m df y) = {i \<in> grp m df y. ahead m df i < 10}"
  unfolding kept_def grp_def by (auto simp: le10_rank_first)

lemma distinct_kept: "distinct (kept m df y)"
  unfolding kept_def by simp

lemma ranks_unsorted:
  "map rank (filter (\<lambda>r. year r = y) (filter (\<lambda>r. le10 (rank r)) (assign_rank m df)))
   = map (\<lambda>i. Num (real (Suc (ahead m df i)))) (kept m df y)"
proof -
  have "map rank (filter (\<lambda>r. year r = y) (filter (\<lambda>r. le10 (rank r)) (assign_rank m df)))
        = map (rank_first m df) (kept m df y)"
    unfolding assign_rank_conv kept_def
    by (simp add: filter_map comp_def conj_commute)
  also have "\<dots> = map (\<lambda>i. Num (real (Suc (ahead m df i)))) (kept m df y)"
    by (rule map_cong) (auto simp: set_kept grp_def rank_first_def split: float64.splits)
  finally show ?thesis .
qed

lemma ahead_kept_image:
  "ahead m df ` set (kept m df y) = {0..<min (card (grp m df y)) 10}"
proof -
  have "ahead m df ` {i \<in> grp m df y. ahead m df i < 10}
        = (ahead m df ` grp m df y) \<inter> {0..<10}"
    by auto
  then show ?thesis unfolding set_kept ahead_image by auto
qed

lemma inj_rank_of: "inj_on (\<lambda>i. Num (real (Suc (ahead m df i)))) (set (kept m df y))"
proof (rule inj_onI)
  fix i j
  assume i: "i \<in> set (kept m df y)" and j: "j \<in> set (kept m df y)"
    and eq: "Num (real (Suc (ahead m df i))) = Num (real (Suc (ahead m df j)))"
  from eq have "ahead m df i = ahead m df j" by simp
  moreover have "i \<in> grp m df y" "j \<in> grp m df y" using i j by (simp_all add: set_kept)
  ultimately show "i = j" using ahead_inj[of m df y] by (simp add: inj_on_def)
qed

lemma ranks_unsorted_props:
  defines "n \<equiv> \<lambda>m df y. min (length (filter (\<lambda>r. year r = y \<and> col m r \<noteq> NaN) df)) 10"
  shows "distinct (map (\<lambda>i. Num (real (Suc (ahead m df i)))) (kept m df y))"
    and "set (map (\<lambda>i. Num (real (Suc (ahead m df i)))) (kept m df y))
         = (\<lambda>k. Num (real k)) ` {1..n m df y}"
    and "length (map (\<lambda>i. Num (real (Suc (ahead m df i)))) (kept m df y)) = n m df y"
proof -
  show "distinct (map (\<lambda>i. Num (real (Suc (ahead m df i)))) (kept m df y))"
    unfolding distinct_map using distinct_kept inj_rank_of by blast
  have "set (map (\<lambda>i. Num (real (Suc (ahead m df i)))) (kept m df y))
        = (\<lambda>k. Num (real (Suc k))) ` (ahead m df ` set (kept m df y))"
    by (simp add: image_image)
  also have "\<dots> = (\<lambda>k. Num (real (Suc k))) ` {0..<n m df y}"
    unfolding ahead_kept_image n_def grp_card ..
  also have "\<dots> = (\<lambda>k. Num (real k)) ` (Suc ` {0..<n m df y})"
    by (rule image_image[symmetric])
  also have "Suc ` {0..<n m df y} = {1..n m df y}"
    by auto
  finally show "set (map (\<lambda>i. Num (real (Suc (ahead m df i)))) (kept m df y))
                = (\<lambda>k. Num (real k)) ` {1..n m df y}" .
  have "length (kept m df y) = card (set (kept m df y))"
    by (simp add: distinct_card distinct_kept)
  also have "\<dots> = card (ahead m df ` set (kept m df y))"
    by (rule card_image[symmetric])
      (rule inj_on_subset[OF ahead_inj[of m df y]], auto simp: set_kept)
  also have "\<dots> = n m df y"
    unfolding ahead_kept_image n_def grp_card by simp
  finally show "length (map (\<lambda>i. Num (real (Suc (ahead m df i)))) (kept m df y)) = n m df y"
    by simp
qed

lemma df_rank_year:
  "mset (map rank (filter (\<lambda>r. year r = y) (df_rank m df)))
   = mset (map rank (filter (\<lambda>r. year r = y) (filter (\<lambda>r. le10 (rank r)) (assign_rank m df))))"
  unfolding df_rank_def by (simp add: filter_sort)

lemma df_rank_row:
  assumes "r \<in> set (df_rank m df)"
  shows "\<exists>i < length df. r = with_rank (df ! i) (Num (real (Suc (ahead m df i))))
            \<and> col m (df ! i) \<noteq> NaN \<and> ahead m df i < 10"
proof -
  from assms have r: "r \<in> set (assign_rank m df)" "le10 (rank r)"
    by (simp_all add: df_rank_def)
  then obtain i where i: "i < length df" "r = with_rank (df ! i) (rank_first m df i)"
    by (auto simp: assign_rank_conv)
  with r have "col m (df ! i) \<noteq> NaN" "ahead m df i < 10"
    by (simp_all add: le10_rank_first)
  moreover from this have "rank_first m df i = Num (real (Suc (ahead m df i)))"
    by (simp add: rank_first_def split: float64.splits)
  ultimately show ?thesis using i by auto
qed

lemma fst_le_of_pair_le: "(a, x) \<le> (b, y) \<Longrightarrow> a \<le> (b :: 'a :: order)"
  by (auto simp: less_eq_prod_def)

subsection \<open>The ranks as places in the stable descending sort\<close>

lemma rank_descending:
  assumes "i < length df" "j < length df" "year (df ! i) = year (df ! j)"
    "col m (df ! i) = Num v" "col m (df ! j) = Num w" "w < v"
  shows "ahead m df i < ahead m df j"
  using assms by (intro ahead_mono) (simp_all add: precedes_def)

lemma set_group_order: "set (group_order m df y) = grp m df y"
  by (auto simp: group_order_def grp_def)

lemma distinct_group_order: "distinct (group_order m df y)"
  by (simp add: group_order_def)

lemma group_order_precedes:
  assumes "a < b" "b < length (group_order m df y)"
  shows "precedes m df (group_order m df y ! a) (group_order m df y ! b)"
proof -
  let ?s = "group_order m df y"
  let ?key = "\<lambda>i. - num (col m (df ! i))"
  let ?idx = "filter (\<lambda>i. year (df ! i) = y \<and> col m (df ! i) \<noteq> NaN) [0..<length df]"
  have ina: "?s ! a \<in> grp m df y" and inb: "?s ! b \<in> grp m df y"
    using assms set_group_order[of m df y] nth_mem[of a ?s] nth_mem[of b ?s] by auto
  from ina obtain v where v: "col m (df ! (?s ! a)) = Num v"
    unfolding grp_def by (cases "col m (df ! (?s ! a))") auto
  from inb obtain w where w: "col m (df ! (?s ! b)) = Num w"
    unfolding grp_def by (cases "col m (df ! (?s ! b))") auto
  have "sorted (map ?key ?s)" unfolding group_order_def by (rule sorted_sort_key)
  then have "?key (?s ! a) \<le> ?key (?s ! b)"
    using sorted_nth_mono[of "map ?key ?s" a b] assms by simp
  then have le: "w \<le> v" using v w by simp
  show ?thesis
  proof (cases "w < v")
    case True
    then show ?thesis using ina inb v w by (simp add: precedes_def grp_def)
  next
    case False
    with le have eq: "w = v" by simp
    let ?P = "\<lambda>i. ?key i = - v"
    have split: "?s = take b ?s @ ?s ! b # drop (Suc b) ?s"
      using assms by (simp add: id_take_nth_drop)
    have "filter ?P ?s = filter ?P ?idx"
      unfolding group_order_def by (rule sort_key_stable)
    moreover have "sorted_wrt (<) (filter ?P ?idx)"
      by (intro sorted_wrt_filter) simp
    ultimately have "sorted_wrt (<) (filter ?P ?s)" by simp
    then have "sorted_wrt (<) (filter ?P (take b ?s) @ ?s ! b # filter ?P (drop (Suc b) ?s))"
      using w eq by (subst (asm) split) simp
    then have "\<forall>x \<in> set (filter ?P (take b ?s)). x < ?s ! b"
      by (simp add: sorted_wrt_append)
    moreover have "?s ! a \<in> set (take b ?s)"
      using assms by (auto simp: in_set_conv_nth intro!: exI[of _ a])
    ultimately have "?s ! a < ?s ! b" using v by simp
    then show ?thesis using ina inb v w eq by (simp add: precedes_def grp_def)
  qed
qed

lemma ahead_group_order:
  assumes "k < length (group_order m df y)"
  shows "ahead m df (group_order m df y ! k) = k"
proof -
  let ?s = "group_order m df y"
  have "{j. j < length df \<and> precedes m df j (?s ! k)} = (\<lambda>a. ?s ! a) ` {..<k}"
  proof (intro set_eqI iffI)
    fix j assume "j \<in> {j. j < length df \<and> precedes m df j (?s ! k)}"
    then have j: "j < length df" "precedes m df j (?s ! k)" by auto
    then have "j \<in> grp m df y"
      using precedes_group[OF j(2)] set_group_order[of m df y] nth_mem[OF assms]
      by (auto simp: grp_def)
    then have "j \<in> set ?s" by (simp add: set_group_order)
    then obtain a where a: "a < length ?s" "j = ?s ! a"
      by (metis in_set_conv_nth)
    have "a < k"
    proof (rule ccontr)
      assume "\<not> a < k"
      then consider "a = k" | "k < a" by linarith
      then show False
      proof cases
        case 1
        then show False using j a precedes_irrefl by auto
      next
        case 2
        then have "precedes m df (?s ! k) (?s ! a)" using a by (intro group_order_precedes)
        then show False using j a precedes_trans precedes_irrefl by blast
      qed
    qed
    then show "j \<in> (\<lambda>a. ?s ! a) ` {..<k}" using a by auto
  next
    fix j assume "j \<in> (\<lambda>a. ?s ! a) ` {..<k}"
    then obtain a where a: "a < k" "j = ?s ! a" by auto
    then have "precedes m df j (?s ! k)" using assms by (auto intro: group_order_precedes)
    moreover have "j \<in> grp m df y"
      using a assms set_group_order[of m df y] nth_mem[of a ?s] by auto
    ultimately show "j \<in> {j. j < length df \<and> precedes m df j (?s ! k)}"
      by (simp add: grp_def)
  qed
  moreover have "inj_on (\<lambda>a. ?s ! a) {..<k}"
    using assms distinct_group_order[of m df y]
    by (auto simp: inj_on_def nth_eq_iff_index_eq)
  ultimately show ?thesis by (simp add: ahead_card card_image)
qed

lemma rank_is_position:
  assumes "k < length (group_order m df y)"
  shows "rank_first m df (group_order m df y ! k) = Num (real (Suc k))"
proof -
  have "group_order m df y ! k \<in> grp m df y"
    using assms set_group_order[of m df y] nth_mem[OF assms] by auto
  then show ?thesis
    using ahead_group_order[OF assms]
    by (auto simp: rank_first_def grp_def split: float64.splits)
qed

subsection \<open>The claims about the ranking\<close>

text \<open>
  C1. For every table and every year, the ranks of the rows of that year that the ranking
  retains are the numbers \<open>1, \<dots>, m\<close>, each exactly once, where \<open>m\<close> is the smaller of 10
  and the number of rows of that year whose metric value is present; there are \<open>m\<close> such
  rows, so a year with fewer than ten ranked rows is not padded; and every retained row has
  a rank between 1 and 10. The count is over the rows with a present value, not over the
  whole year group: a row with a missing value gets no rank.
\<close>

theorem df_rank_contiguous:
  "(let rs = map rank (filter (\<lambda>r. year r = y) (df_rank metric df));
        m = min (length (filter (\<lambda>r. year r = y \<and> col metric r \<noteq> NaN) df)) 10
    in distinct rs \<and> set rs = (\<lambda>k. Num (real k)) ` {1..m} \<and> length rs = m)
   \<and> (\<forall>r \<in> set (df_rank metric df). \<exists>k. rank r = Num (real k) \<and> 1 \<le> k \<and> k \<le> 10)"
proof (rule conjI)
  let ?rs = "map rank (filter (\<lambda>r. year r = y) (df_rank metric df))"
  let ?us = "map (\<lambda>i. Num (real (Suc (ahead metric df i)))) (kept metric df y)"
  have eq: "mset ?rs = mset ?us"
    unfolding df_rank_year ranks_unsorted ..
  have "distinct ?rs"
    using ranks_unsorted_props(1)[of metric df y] mset_eq_imp_distinct_iff[OF eq] by simp
  moreover have "set ?rs = set ?us" using mset_eq_setD[OF eq] .
  moreover have "length ?rs = length ?us" using mset_eq_length[OF eq] .
  ultimately show
    "let rs = ?rs; m = min (length (filter (\<lambda>r. year r = y \<and> col metric r \<noteq> NaN) df)) 10
     in distinct rs \<and> set rs = (\<lambda>k. Num (real k)) ` {1..m} \<and> length rs = m"
    using ranks_unsorted_props(2,3)[of metric df y] by (simp add: Let_def)
next
  show "\<forall>r \<in> set (df_rank metric df). \<exists>k. rank r = Num (real k) \<and> 1 \<le> k \<and> k \<le> 10"
  proof
    fix r assume "r \<in> set (df_rank metric df)"
    then obtain i where "r = with_rank (df ! i) (Num (real (Suc (ahead metric df i))))"
      and "ahead metric df i < 10"
      using df_rank_row by blast
    then have "rank r = Num (real (Suc (ahead metric df i))) \<and> 1 \<le> Suc (ahead metric df i)
        \<and> Suc (ahead metric df i) \<le> 10"
      by simp
    then show "\<exists>k. rank r = Num (real k) \<and> 1 \<le> k \<and> k \<le> 10" by blast
  qed
qed

text \<open>
  At the sample table, whose year 2020 has three rows with a CCII value and two with a GWE
  value: three distinct ranks for CCII, two rows for GWE.
\<close>

theorem df_rank_contiguous_witness:
  "distinct (map rank (filter (\<lambda>r. year r = 2020) (df_rank Ccii sample_country)))
   \<and> length (map rank (filter (\<lambda>r. year r = 2020) (df_rank Ccii sample_country))) = 3
   \<and> length (map rank (filter (\<lambda>r. year r = 2020) (df_rank Gwe sample_country))) = 2"
  using df_rank_contiguous [of 2020 Ccii sample_country]
    df_rank_contiguous [of 2020 Gwe sample_country]
  by (simp add: Let_def sample_country_def)

text \<open>
  With \<open>m\<close> taken over the whole year group the statement fails: the year 2020 of
  \<open>sample_missing\<close> has one row, its CCII value is missing, and the ranking retains nothing.
\<close>

theorem df_rank_group_size_counterexample:
  "\<not> (let rs = map rank (filter (\<lambda>r. year r = 2020) (df_rank Ccii sample_missing));
          m = min (length (filter (\<lambda>r. year r = 2020) sample_missing)) 10
      in distinct rs \<and> set rs = (\<lambda>k. Num (real k)) ` {1..m} \<and> length rs = m)"
  by (simp add: df_rank_def assign_rank_def groupby_rank_def rank_first_def sample_missing_def)

text \<open>
  C2. Of two rows of the same year with equal metric values, the one that comes first in
  the table gets the strictly lower rank; the rows \<open>(A, 2020, 5)\<close>, \<open>(B, 2020, 5)\<close>,
  \<open>(C, 2020, 3)\<close> in that order get the ranks 1, 2, 3, whatever their other columns
  hold. Two float64 values are equal only when both are present. The ranking is a function
  of the table, so the same table always gives the same ranks.
\<close>

theorem rank_tie_break:
  "(i < j \<and> j < length df \<and> year (df ! i) = year (df ! j)
      \<and> col metric (df ! i) = Num v \<and> col metric (df ! j) = Num v
    \<longrightarrow> (\<exists>a b. groupby_rank metric df ! i = Num (real a)
              \<and> groupby_rank metric df ! j = Num (real b) \<and> a < b))
   \<and> groupby_rank Ccii
        [\<lparr>entity = ''A'', year = 2020, ccii = Num 5, gwe = g1, gwghg = h1\<rparr>,
         \<lparr>entity = ''B'', year = 2020, ccii = Num 5, gwe = g2, gwghg = h2\<rparr>,
         \<lparr>entity = ''C'', year = 2020, ccii = Num 3, gwe = g3, gwghg = h3\<rparr>]
       = [Num 1, Num 2, Num 3]"
proof (intro conjI impI)
  assume h: "i < j \<and> j < length df \<and> year (df ! i) = year (df ! j)
      \<and> col metric (df ! i) = Num v \<and> col metric (df ! j) = Num v"
  then have "precedes metric df i j" by (simp add: precedes_def)
  with h have "ahead metric df i < ahead metric df j" by (intro ahead_mono) auto
  moreover have "groupby_rank metric df ! i = Num (real (Suc (ahead metric df i)))"
    using h by (simp add: groupby_rank_nth rank_first_def)
  moreover have "groupby_rank metric df ! j = Num (real (Suc (ahead metric df j)))"
    using h by (simp add: groupby_rank_nth rank_first_def)
  ultimately show "\<exists>a b. groupby_rank metric df ! i = Num (real a)
              \<and> groupby_rank metric df ! j = Num (real b) \<and> a < b"
    by (metis Suc_less_eq)
next
  show "groupby_rank Ccii
        [\<lparr>entity = ''A'', year = 2020, ccii = Num 5, gwe = g1, gwghg = h1\<rparr>,
         \<lparr>entity = ''B'', year = 2020, ccii = Num 5, gwe = g2, gwghg = h2\<rparr>,
         \<lparr>entity = ''C'', year = 2020, ccii = Num 3, gwe = g3, gwghg = h3\<rparr>]
       = [Num 1, Num 2, Num 3]"
    by (simp add: groupby_rank_def rank_first_def ahead_def precedes_def upt_rec)
qed

text \<open>In \<open>sample_ties\<close> the rows B and C have the same GWGHG value, 7, below that of A.\<close>

theorem rank_tie_break_witness:
  "\<exists>a b. groupby_rank Gwghg sample_ties ! 1 = Num (real a)
         \<and> groupby_rank Gwghg sample_ties ! 2 = Num (real b) \<and> a < b"
  using rank_tie_break [of 1 2 sample_ties Gwghg 7]
  by (simp add: sample_ties_def)

text \<open>
  C9. The output of the ranking is sorted by the pair (entity, year): by the name first, by
  the year among the rows of one name. It holds the retained rows and no others, and the
  rows of one entity are next to each other.
\<close>

theorem df_rank_sorted:
  "sorted (map (\<lambda>r. (entity r, year r)) (df_rank metric df))
   \<and> mset (df_rank metric df) = mset (filter (\<lambda>r. le10 (rank r)) (assign_rank metric df))
   \<and> (i \<le> j \<and> j \<le> k \<and> k < length (df_rank metric df)
        \<and> entity (df_rank metric df ! i) = entity (df_rank metric df ! k)
      \<longrightarrow> entity (df_rank metric df ! j) = entity (df_rank metric df ! i))"
proof (intro conjI impI)
  let ?out = "df_rank metric df"
  let ?key = "\<lambda>r :: ranked_row. (entity r, year r)"
  show s: "sorted (map ?key ?out)"
    unfolding df_rank_def by (rule sorted_sort_key)
  show "mset ?out = mset (filter (\<lambda>r. le10 (rank r)) (assign_rank metric df))"
    unfolding df_rank_def by simp
  assume h: "i \<le> j \<and> j \<le> k \<and> k < length ?out \<and> entity (?out ! i) = entity (?out ! k)"
  have "?key (?out ! i) \<le> ?key (?out ! j)"
    using sorted_nth_mono[OF s, of i j] h by simp
  moreover have "?key (?out ! j) \<le> ?key (?out ! k)"
    using sorted_nth_mono[OF s, of j k] h by simp
  ultimately have "entity (?out ! i) \<le> entity (?out ! j)"
    and "entity (?out ! j) \<le> entity (?out ! k)"
    by (auto dest: fst_le_of_pair_le)
  with h show "entity (?out ! j) = entity (?out ! i)" by simp
qed

text \<open>The sample table comes out with the two rows of A first, the earlier year first.\<close>

theorem df_rank_sorted_witness:
  "map (\<lambda>r. (entity r, year r)) (df_rank Ccii sample_country)
     = [(''A'', 2019), (''A'', 2020), (''B'', 2020), (''C'', 2020)]
   \<and> entity (df_rank Ccii sample_country ! 1) = entity (df_rank Ccii sample_country ! 0)"
  using df_rank_sorted [of Ccii sample_country 0 1 1]
  by (simp add: sample_country_def df_rank_def assign_rank_def groupby_rank_def rank_first_def
      ahead_def precedes_def upt_rec with_rank_def)

text \<open>
  C10. A row whose metric value is missing gets the rank NaN, fails the comparison with 10
  and is not in the output of the ranking: every row of the output has a present metric
  value. No error is raised for such a row, and it is not ranked last.
\<close>

theorem missing_metric_dropped:
  "(\<forall>r \<in> set (df_rank metric df). col metric r \<noteq> NaN)
   \<and> (\<forall>i < length df. col metric (df ! i) = NaN \<longrightarrow>
         groupby_rank metric df ! i = NaN \<and> \<not> le10 (rank (assign_rank metric df ! i)))"
proof (intro conjI ballI allI impI)
  fix r assume "r \<in> set (df_rank metric df)"
  then show "col metric r \<noteq> NaN"
    using df_rank_row[of r metric df] by auto
next
  fix i assume "i < length df" "col metric (df ! i) = NaN"
  then show "groupby_rank metric df ! i = NaN"
    by (simp add: groupby_rank_nth rank_first_def)
next
  fix i assume "i < length df" "col metric (df ! i) = NaN"
  then show "\<not> le10 (rank (assign_rank metric df ! i))"
    by (simp add: assign_rank_conv rank_first_def)
qed

text \<open>
  In the sample table the row of B has no GWE value: it gets no rank, and the output for
  GWE holds the two rows of A and the row of C.
\<close>

theorem missing_metric_dropped_witness:
  "groupby_rank Gwe sample_country = [Num 2, NaN, Num 1, Num 1]
   \<and> map entity (df_rank Gwe sample_country) = [''A'', ''A'', ''C'']"
  using missing_metric_dropped [of Gwe sample_country]
  by (simp add: sample_country_def df_rank_def assign_rank_def groupby_rank_def rank_first_def
      ahead_def precedes_def upt_rec with_rank_def)

section \<open>Properties of the quadrant layout\<close>

lemma max_f64_Max: "dropna vs \<noteq> [] \<Longrightarrow> max_f64 vs = Num (Max (set (dropna vs)))"
  by (cases "dropna vs") (simp_all add: max_f64_def Max.set_eq_fold del: set_simps)

lemma min_f64_Min: "dropna vs \<noteq> [] \<Longrightarrow> min_f64 vs = Num (Min (set (dropna vs)))"
  by (cases "dropna vs") (simp_all add: min_f64_def Min.set_eq_fold del: set_simps)

lemma mean_f64_avg:
  "dropna vs \<noteq> [] \<Longrightarrow> mean_f64 vs = Num (sum_list (dropna vs) / real (length (dropna vs)))"
  by (cases "dropna vs") (simp_all add: mean_f64_def)

lemma dropna_complete: "NaN \<notin> set vs \<Longrightarrow> map Num (dropna vs) = vs"
  by (induction vs rule: dropna.induct) simp_all

lemma nan_on_empty:
  assumes "dropna vs = []"
  shows "mean_f64 vs = NaN" "min_f64 vs = NaN" "max_f64 vs = NaN"
  using assms by (simp_all add: mean_f64_def min_f64_def max_f64_def)

text \<open>
  C3. In a table that has at least one present value in the x column and in the y column,
  the vertical reference is at 0 and the horizontal reference is at the mean of the present
  values of the y column over the rows of all years; the four anchors are, in this order,
  at (0.6 times the largest x, 0.9 times the largest y), (0.6 times the smallest x, 0.9
  times the largest y), (0.6 times the smallest x, 0.9 times the smallest y) and (0.6 times
  the largest x, 0.9 times the smallest y), the extrema being those of the present values
  of the whole table. As in pandas, a row with a missing value does not count for the mean
  or the extrema; in a table with no missing value the present values are the values of
  all rows.
\<close>

theorem quadrant_layout_global:
  "(let xs = dropna (map ccii df_ind); ys = dropna (map (col y_metric) df_ind) in
      x_center = Num 0
      \<and> (ys \<noteq> [] \<longrightarrow> y_center y_metric df_ind = Num (sum_list ys / real (length ys)))
      \<and> (xs \<noteq> [] \<and> ys \<noteq> [] \<longrightarrow>
           map (\<lambda>a. (ann_x a, ann_y a)) (annotations y_metric df_ind)
           = [(Num (Max (set xs) * 0.6), Num (Max (set ys) * 0.9)),
              (Num (Min (set xs) * 0.6), Num (Max (set ys) * 0.9)),
              (Num (Min (set xs) * 0.6), Num (Min (set ys) * 0.9)),
              (Num (Max (set xs) * 0.6), Num (Min (set ys) * 0.9))])
      \<and> (NaN \<notin> set (map (col y_metric) df_ind) \<longrightarrow> map Num ys = map (col y_metric) df_ind)
      \<and> (NaN \<notin> set (map ccii df_ind) \<longrightarrow> map Num xs = map ccii df_ind))"
  unfolding Let_def
proof (intro conjI impI)
  show "x_center = Num 0" by (simp add: x_center_def)
next
  assume "dropna (map (col y_metric) df_ind) \<noteq> []"
  then show "y_center y_metric df_ind
      = Num (sum_list (dropna (map (col y_metric) df_ind))
             / real (length (dropna (map (col y_metric) df_ind))))"
    unfolding y_center_def by (rule mean_f64_avg)
next
  assume "dropna (map ccii df_ind) \<noteq> [] \<and> dropna (map (col y_metric) df_ind) \<noteq> []"
  then show "map (\<lambda>a. (ann_x a, ann_y a)) (annotations y_metric df_ind)
           = [(Num (Max (set (dropna (map ccii df_ind))) * 0.6),
               Num (Max (set (dropna (map (col y_metric) df_ind))) * 0.9)),
              (Num (Min (set (dropna (map ccii df_ind))) * 0.6),
               Num (Max (set (dropna (map (col y_metric) df_ind))) * 0.9)),
              (Num (Min (set (dropna (map ccii df_ind))) * 0.6),
               Num (Min (set (dropna (map (col y_metric) df_ind))) * 0.9)),
              (Num (Max (set (dropna (map ccii df_ind))) * 0.6),
               Num (Min (set (dropna (map (col y_metric) df_ind))) * 0.9))]"
    by (simp add: annotations_def max_f64_Max min_f64_Min)
next
  assume "NaN \<notin> set (map (col y_metric) df_ind)"
  then show "map Num (dropna (map (col y_metric) df_ind)) = map (col y_metric) df_ind"
    by (rule dropna_complete)
next
  assume "NaN \<notin> set (map ccii df_ind)"
  then show "map Num (dropna (map ccii df_ind)) = map ccii df_ind"
    by (rule dropna_complete)
qed

text \<open>
  The sample table has CCII between -2 and 4 and GWE between 0 and 10 with mean 4: the
  horizontal reference is at 4 and the first anchor at (2.4, 9).
\<close>

theorem quadrant_layout_global_witness:
  "x_center = Num 0 \<and> y_center Gwe sample_industry = Num 4
   \<and> map (\<lambda>a. (ann_x a, ann_y a)) (annotations Gwe sample_industry)
      = [(Num 2.4, Num 9), (Num (-1.2), Num 9), (Num (-1.2), Num 0), (Num 2.4, Num 0)]"
  using quadrant_layout_global [of sample_industry Gwe]
  by (simp add: Let_def sample_industry_def x_center_def)

text \<open>
  For every non-empty table and over all rows the statement fails. The table
  \<open>sample_missing\<close> has one row and no GWE or CCII value: the horizontal reference and
  the anchors are NaN. The table \<open>sample_gap\<close> has two rows, one without a GWE value:
  the horizontal reference is at 4, the value of the other row alone.
\<close>

theorem quadrant_layout_missing_counterexample:
  "length sample_missing = 1 \<and> y_center Gwe sample_missing = NaN
   \<and> map (\<lambda>a. (ann_x a, ann_y a)) (annotations Gwe sample_missing)
      = [(NaN, NaN), (NaN, NaN), (NaN, NaN), (NaN, NaN)]
   \<and> length sample_gap = 2 \<and> map gwe sample_gap = [NaN, Num 4]
   \<and> y_center Gwe sample_gap = Num 4"
  by (simp add: sample_missing_def sample_gap_def y_center_def mean_f64_def annotations_def
      max_f64_def min_f64_def)

lemma frames_fig: "frames (fig y_metric df_ind) = frames (scatter y_metric df_ind)"
  by (simp add: fig_def update_layout_def add_shape_def)

lemma frame_of_scatter:
  assumes "fr \<in> set (frames (scatter y_metric df_ind))"
  shows "frame_shapes fr = None" and "frame_annotations fr = None"
    and "frame_data fr
         = map (\<lambda>r. \<lparr>point_text = entity r, point_x = ccii r, point_y = col y_metric r\<rparr>)
             (filter (\<lambda>r. year r = frame_name fr) df_ind)"
  using assms by (auto simp: scatter_def)

lemma shown_in_fig:
  assumes "fr \<in> set (frames (fig y_metric df_ind))"
  shows "shown_shapes (fig y_metric df_ind) fr = layout_shapes (fig y_metric df_ind)"
    and "shown_annotations (fig y_metric df_ind) fr = annotations y_metric df_ind"
proof -
  from assms have "frame_shapes fr = None" "frame_annotations fr = None"
    unfolding frames_fig by (rule frame_of_scatter)+
  then show "shown_shapes (fig y_metric df_ind) fr = layout_shapes (fig y_metric df_ind)"
    and "shown_annotations (fig y_metric df_ind) fr = annotations y_metric df_ind"
    by (simp_all add: shown_shapes_def shown_annotations_def fig_def update_layout_def)
qed

lemma layout_shapes_fig:
  "layout_shapes (fig y_metric df_ind)
   = [\<lparr>line_x0 = x_center, line_x1 = x_center,
        line_y0 = min_f64 (map (col y_metric) df_ind),
        line_y1 = max_f64 (map (col y_metric) df_ind)\<rparr>,
       \<lparr>line_x0 = min_f64 (map ccii df_ind), line_x1 = max_f64 (map ccii df_ind),
        line_y0 = y_center y_metric df_ind, line_y1 = y_center y_metric df_ind\<rparr>]"
  by (simp add: fig_def update_layout_def add_shape_def scatter_def)

text \<open>
  C4. The animation has one frame for each year of the table, and a frame holds the points
  of the rows of its year. While any of these frames is current, the chart shows the same
  two reference lines and the same four annotations: those of the figure's layout, which
  are computed once from the whole table. In a table with a present value in each of the
  two columns the vertical line is at 0 from the smallest to the largest y of the table,
  the horizontal line is at the mean of the y values of the table from the smallest to the
  largest x, and the anchors are at 0.6 and 0.9 times the extrema of the table.
\<close>

theorem frames_share_layout:
  "(\<forall>fr \<in> set (frames (fig y_metric df_ind)). \<forall>fr' \<in> set (frames (fig y_metric df_ind)).
      shown_shapes (fig y_metric df_ind) fr = shown_shapes (fig y_metric df_ind) fr'
      \<and> shown_annotations (fig y_metric df_ind) fr
          = shown_annotations (fig y_metric df_ind) fr')
   \<and> (let xs = dropna (map ccii df_ind); ys = dropna (map (col y_metric) df_ind) in
        xs \<noteq> [] \<and> ys \<noteq> [] \<longrightarrow>
          (\<forall>fr \<in> set (frames (fig y_metric df_ind)).
             shown_shapes (fig y_metric df_ind) fr
               = [\<lparr>line_x0 = Num 0, line_x1 = Num 0,
                    line_y0 = Num (Min (set ys)), line_y1 = Num (Max (set ys))\<rparr>,
                   \<lparr>line_x0 = Num (Min (set xs)), line_x1 = Num (Max (set xs)),
                    line_y0 = Num (sum_list ys / real (length ys)),
                    line_y1 = Num (sum_list ys / real (length ys))\<rparr>]
             \<and> map (\<lambda>a. (ann_x a, ann_y a)) (shown_annotations (fig y_metric df_ind) fr)
               = [(Num (Max (set xs) * 0.6), Num (Max (set ys) * 0.9)),
                  (Num (Min (set xs) * 0.6), Num (Max (set ys) * 0.9)),
                  (Num (Min (set xs) * 0.6), Num (Min (set ys) * 0.9)),
                  (Num (Max (set xs) * 0.6), Num (Min (set ys) * 0.9))]))
   \<and> frame_name ` set (frames (fig y_metric df_ind)) = year ` set df_ind
   \<and> (\<forall>fr \<in> set (frames (fig y_metric df_ind)).
        frame_data fr
        = map (\<lambda>r. \<lparr>point_text = entity r, point_x = ccii r, point_y = col y_metric r\<rparr>)
            (filter (\<lambda>r. year r = frame_name fr) df_ind))"
  unfolding Let_def
proof (intro conjI ballI impI)
  fix fr fr'
  assume "fr \<in> set (frames (fig y_metric df_ind))" "fr' \<in> set (frames (fig y_metric df_ind))"
  then show "shown_shapes (fig y_metric df_ind) fr = shown_shapes (fig y_metric df_ind) fr'"
    and "shown_annotations (fig y_metric df_ind) fr = shown_annotations (fig y_metric df_ind) fr'"
    by (simp_all add: shown_in_fig)
next
  fix fr
  assume present: "dropna (map ccii df_ind) \<noteq> [] \<and> dropna (map (col y_metric) df_ind) \<noteq> []"
    and fr: "fr \<in> set (frames (fig y_metric df_ind))"
  from fr present
  show "shown_shapes (fig y_metric df_ind) fr
      = [\<lparr>line_x0 = Num 0, line_x1 = Num 0,
           line_y0 = Num (Min (set (dropna (map (col y_metric) df_ind)))),
           line_y1 = Num (Max (set (dropna (map (col y_metric) df_ind))))\<rparr>,
          \<lparr>line_x0 = Num (Min (set (dropna (map ccii df_ind)))),
           line_x1 = Num (Max (set (dropna (map ccii df_ind)))),
           line_y0 = Num (sum_list (dropna (map (col y_metric) df_ind))
                            / real (length (dropna (map (col y_metric) df_ind)))),
           line_y1 = Num (sum_list (dropna (map (col y_metric) df_ind))
                            / real (length (dropna (map (col y_metric) df_ind))))\<rparr>]"
    by (simp add: shown_in_fig layout_shapes_fig x_center_def y_center_def
        max_f64_Max min_f64_Min mean_f64_avg)
  from fr present
  show "map (\<lambda>a. (ann_x a, ann_y a)) (shown_annotations (fig y_metric df_ind) fr)
      = [(Num (Max (set (dropna (map ccii df_ind))) * 0.6),
          Num (Max (set (dropna (map (col y_metric) df_ind))) * 0.9)),
         (Num (Min (set (dropna (map ccii df_ind))) * 0.6),
          Num (Max (set (dropna (map (col y_metric) df_ind))) * 0.9)),
         (Num (Min (set (dropna (map ccii df_ind))) * 0.6),
          Num (Min (set (dropna (map (col y_metric) df_ind))) * 0.9)),
         (Num (Max (set (dropna (map ccii df_ind))) * 0.6),
          Num (Min (set (dropna (map (col y_metric) df_ind))) * 0.9))]"
    by (simp add: shown_in_fig annotations_def max_f64_Max min_f64_Min)
next
  have "frame_name ` set (frames (fig y_metric df_ind))
      = set (rev (remdups (rev (map year df_ind))))"
    unfolding frames_fig by (simp add: scatter_def image_image del: set_rev set_remdups)
  then show "frame_name ` set (frames (fig y_metric df_ind)) = year ` set df_ind"
    by simp
next
  fix fr
  assume "fr \<in> set (frames (fig y_metric df_ind))"
  then show "frame_data fr
      = map (\<lambda>r. \<lparr>point_text = entity r, point_x = ccii r, point_y = col y_metric r\<rparr>)
          (filter (\<lambda>r. year r = frame_name fr) df_ind)"
    unfolding frames_fig by (rule frame_of_scatter)
qed

text \<open>
  The sample table has the years 2020 and 2021. The frame of 2021 holds one point, with
  the GWE value 2, and is shown with the horizontal line at 4, the mean of the whole table,
  like the frame of 2020; both are shown with the first anchor at (2.4, 9).
\<close>

theorem frames_share_layout_witness:
  "map frame_name (frames (fig Gwe sample_industry)) = [2020, 2021]
   \<and> map point_y (frame_data (frames (fig Gwe sample_industry) ! 1)) = [Num 2]
   \<and> map (\<lambda>fr. map line_y0 (shown_shapes (fig Gwe sample_industry) fr))
        (frames (fig Gwe sample_industry))
      = [[Num 0, Num 4], [Num 0, Num 4]]
   \<and> map (\<lambda>fr. map (\<lambda>a. (ann_x a, ann_y a)) (shown_annotations (fig Gwe sample_industry) fr) ! 0)
        (frames (fig Gwe sample_industry))
      = [(Num 2.4, Num 9), (Num 2.4, Num 9)]"
  using frames_share_layout [of Gwe sample_industry]
  by (simp add: fig_def update_layout_def add_shape_def scatter_def shown_shapes_def
      shown_annotations_def annotations_def x_center_def y_center_def mean_f64_def
      max_f64_def min_f64_def sample_industry_def)

text \<open>
  C6. On an empty column, and on any column with no present value, mean, min and max
  return NaN and raise nothing. The NaN goes into the layout: with no present value in the
  y column the horizontal reference, the ends of the vertical line and the y coordinate of
  every anchor are NaN, and with none in the x column the x coordinate of every anchor is.
\<close>

theorem reductions_nan_on_empty:
  "mean_f64 [] = NaN \<and> min_f64 [] = NaN \<and> max_f64 [] = NaN
   \<and> (dropna vs = [] \<longrightarrow> mean_f64 vs = NaN \<and> min_f64 vs = NaN \<and> max_f64 vs = NaN)
   \<and> (dropna (map (col y_metric) df_ind) = [] \<longrightarrow>
        y_center y_metric df_ind = NaN
        \<and> (\<forall>a \<in> set (annotations y_metric df_ind). ann_y a = NaN)
        \<and> map line_y0 (layout_shapes (fig y_metric df_ind)) = [NaN, NaN]
        \<and> map line_y1 (layout_shapes (fig y_metric df_ind)) = [NaN, NaN])
   \<and> (dropna (map ccii df_ind) = [] \<longrightarrow>
        (\<forall>a \<in> set (annotations y_metric df_ind). ann_x a = NaN))"
proof (intro conjI impI)
  show "mean_f64 [] = NaN" "min_f64 [] = NaN" "max_f64 [] = NaN"
    by (simp_all add: mean_f64_def min_f64_def max_f64_def)
next
  assume "dropna vs = []"
  then show "mean_f64 vs = NaN" "min_f64 vs = NaN" "max_f64 vs = NaN"
    by (rule nan_on_empty)+
next
  assume e: "dropna (map (col y_metric) df_ind) = []"
  note m = nan_on_empty[OF e]
  from m show "y_center y_metric df_ind = NaN" by (simp add: y_center_def)
  from m show "\<forall>a \<in> set (annotations y_metric df_ind). ann_y a = NaN"
    by (simp add: annotations_def)
  from m show "map line_y0 (layout_shapes (fig y_metric df_ind)) = [NaN, NaN]"
    and "map line_y1 (layout_shapes (fig y_metric df_ind)) = [NaN, NaN]"
    by (simp_all add: layout_shapes_fig y_center_def)
next
  assume e: "dropna (map ccii df_ind) = []"
  note m = nan_on_empty[OF e]
  from m show "\<forall>a \<in> set (annotations y_metric df_ind). ann_x a = NaN"
    by (simp add: annotations_def)
qed

text \<open>The one row of \<open>sample_missing\<close> has no GWE value.\<close>

theorem reductions_nan_on_empty_witness:
  "y_center Gwe sample_missing = NaN
   \<and> map ann_y (annotations Gwe sample_missing) = [NaN, NaN, NaN, NaN]
   \<and> map ann_x (annotations Gwe sample_missing) = [NaN, NaN, NaN, NaN]"
  using reductions_nan_on_empty [of "map gwe sample_missing" Gwe sample_missing]
  by (simp add: sample_missing_def annotations_def)

text \<open>
  The empty table is an input at which nothing fails with \<open>InsufficientDataError\<close>: the
  reductions return NaN, and the reference and the anchors are NaN.
\<close>

theorem empty_column_counterexample:
  "mean_f64 [] = NaN \<and> min_f64 [] = NaN \<and> max_f64 [] = NaN
   \<and> y_center Gwe [] = NaN
   \<and> map (\<lambda>a. (ann_x a, ann_y a)) (annotations Gwe [])
      = [(NaN, NaN), (NaN, NaN), (NaN, NaN), (NaN, NaN)]"
  by (simp add: mean_f64_def min_f64_def max_f64_def y_center_def annotations_def)

text \<open>
  C7. Each of the four anchors has its x coordinate at 0.6 times an extreme of the x
  column and its y coordinate at 0.9 times an extreme of the y column, one anchor for each
  of the four pairs of extremes. The factor on the y axis is 0.9, not 0.6.
\<close>

theorem anchors_scaling:
  "(let xs = dropna (map ccii df_ind); ys = dropna (map (col y_metric) df_ind) in
      xs \<noteq> [] \<and> ys \<noteq> [] \<longrightarrow>
        length (annotations y_metric df_ind) = 4
        \<and> (\<forall>a \<in> set (annotations y_metric df_ind).
              (\<exists>ex \<in> {Min (set xs), Max (set xs)}. ann_x a = Num (ex * 0.6))
              \<and> (\<exists>ey \<in> {Min (set ys), Max (set ys)}. ann_y a = Num (ey * 0.9)))
        \<and> (\<forall>ex \<in> {Min (set xs), Max (set xs)}. \<forall>ey \<in> {Min (set ys), Max (set ys)}.
              (Num (ex * 0.6), Num (ey * 0.9))
                \<in> (\<lambda>a. (ann_x a, ann_y a)) ` set (annotations y_metric df_ind)))"
  unfolding Let_def
  by (simp add: annotations_def max_f64_Max min_f64_Min)

theorem anchors_scaling_witness:
  "map (\<lambda>a. (ann_x a, ann_y a)) (annotations Gwghg sample_industry)
     = [(Num 2.4, Num 2.7), (Num (-1.2), Num 2.7), (Num (-1.2), Num 0.9), (Num 2.4, Num 0.9)]"
  using anchors_scaling [of sample_industry Gwghg]
  by (simp add: Let_def sample_industry_def annotations_def max_f64_def min_f64_def)

text \<open>
  In the sample table the largest GWE value is 10: the first anchor has the y coordinate
  9, and 0.6 times the extreme is 6.
\<close>

theorem anchors_y_factor_counterexample:
  "max_f64 (map gwe sample_industry) = Num 10
   \<and> ann_y (annotations Gwe sample_industry ! 0) = Num 9
   \<and> ann_y (annotations Gwe sample_industry ! 0)
      \<noteq> times_f64 (max_f64 (map gwe sample_industry)) 0.6
   \<and> ann_y (annotations Gwe sample_industry ! 0)
      \<noteq> times_f64 (min_f64 (map gwe sample_industry)) 0.6"
  by (simp add: annotations_def max_f64_def min_f64_def sample_industry_def)

section \<open>Properties of the loaders\<close>

lemma astype_int_error: "astype_int py_int c = Inl e \<Longrightarrow> e = ValueError"
  by (cases "(py_int, c)" rule: astype_int.cases) (auto split: option.splits)

lemma astype_int_truncates:
  "astype_int py_int (FloatCell (Num 2020.5)) = Inr 2020"
  by simp

lemma astype_int_refuses:
  "c = FloatCell NaN \<or> (\<exists>s. c = StrCell s \<and> py_int s = None)
   \<Longrightarrow> astype_int py_int c = Inl ValueError"
  by auto

lemma astype_int_column_error: "astype_int_column py_int cs = Inl e \<Longrightarrow> e = ValueError"
  by (induction cs arbitrary: e) (auto split: sum.splits dest: astype_int_error)

lemma astype_int_column_refuses:
  "\<exists>c \<in> set cs. astype_int py_int c = Inl ValueError
   \<Longrightarrow> astype_int_column py_int cs = Inl ValueError"
proof (induction cs)
  case Nil
  then show ?case by simp
next
  case (Cons c cs)
  show ?case
  proof (cases "astype_int py_int c")
    case (Inl e)
    then show ?thesis using astype_int_error[OF Inl] by simp
  next
    case (Inr n)
    with Cons.prems have "\<exists>c \<in> set cs. astype_int py_int c = Inl ValueError" by auto
    then have "astype_int_column py_int cs = Inl ValueError" by (rule Cons.IH)
    with Inr show ?thesis by simp
  qed
qed

lemma astype_int_column_length:
  "astype_int_column py_int cs = Inr ns \<Longrightarrow> length ns = length cs"
  by (induction cs arbitrary: ns) (auto split: sum.splits)

lemma load_data_body_cases:
  "load_data_body py_int fs =
     (case fs ''countrylevel.csv'' of
        None \<Rightarrow> Inl FileNotFoundError
      | Some Unparseable \<Rightarrow> Inl ParserError
      | Some (Csv raw) \<Rightarrow>
          (case astype_int_column py_int (map raw_year raw) of
             Inl e \<Rightarrow> Inl ValueError
           | Inr ys \<Rightarrow> Inr (map2 set_year raw ys)))"
  by (auto simp: load_data_body_def read_csv_def
      split: option.splits csv_file.splits sum.splits dest: astype_int_column_error)

lemma load_industry_data_body_cases:
  "load_industry_data_body py_int fs =
     (case fs ''industrylevel.csv'' of
        None \<Rightarrow> Inl FileNotFoundError
      | Some Unparseable \<Rightarrow> Inl ParserError
      | Some (Csv raw) \<Rightarrow>
          (case astype_int_column py_int (map raw_year raw) of
             Inl e \<Rightarrow> Inl ValueError
           | Inr ys \<Rightarrow> Inr (map2 set_year raw ys)))"
  by (auto simp: load_industry_data_body_def read_csv_def
      split: option.splits csv_file.splits sum.splits dest: astype_int_column_error)

lemma bad_year_column:
  assumes "\<exists>r \<in> set raw. raw_year r = FloatCell NaN
             \<or> (\<exists>s. raw_year r = StrCell s \<and> py_int s = None)"
  shows "astype_int_column py_int (map raw_year raw) = Inl ValueError"
proof (rule astype_int_column_refuses)
  from assms obtain r where "r \<in> set raw"
    and "raw_year r = FloatCell NaN \<or> (\<exists>s. raw_year r = StrCell s \<and> py_int s = None)"
    by blast
  then have "raw_year r \<in> set (map raw_year raw)"
    and "astype_int py_int (raw_year r) = Inl ValueError"
    by (simp_all add: astype_int_refuses)
  then show "\<exists>c \<in> set (map raw_year raw). astype_int py_int c = Inl ValueError" by blast
qed

lemma cache_data_cold:
  "c key = None \<Longrightarrow> body = Inl e \<Longrightarrow> cache_data key body c = (Inl e, c)"
  by (simp add: cache_data_def)

lemma cache_data_failure:
  "cache_data key body c = (Inl e, c') \<Longrightarrow> c' = c \<and> body = Inl e \<and> c key = None"
  by (auto simp: cache_data_def split: option.splits sum.splits)

lemma cache_data_stored:
  "cache_data key body c = (Inr df, c') \<Longrightarrow> c' key = Some df"
  by (auto simp: cache_data_def split: option.splits sum.splits)

lemma cache_data_other:
  "cache_data key body c = (res, c') \<Longrightarrow> key' \<noteq> key \<Longrightarrow> c' key' = c key'"
  by (auto simp: cache_data_def split: option.splits sum.splits)

lemma cache_data_hit:
  "c key = Some df \<Longrightarrow> cache_data key body c = (Inr df, c)"
  by (simp add: cache_data_def)

text \<open>
  C5. A loader that is called with nothing in the cache fails when its file is missing
  (FileNotFoundError), when pandas cannot parse it (the parser's error) and when a value of
  the year column cannot be converted to an integer (ValueError: no value, or a text that
  Python's \<^verbatim>\<open>int()\<close> refuses). The exception is the library's own; the failure is never
  a \<open>DataLoadError\<close>. A loader that fails returns no table, coerced in part or otherwise,
  and stores nothing in the cache.
\<close>

theorem load_failures:
  "(c ''load_data'' = None \<longrightarrow>
      (fs ''countrylevel.csv'' = None \<longrightarrow> load_data py_int fs c = (Inl FileNotFoundError, c))
      \<and> (fs ''countrylevel.csv'' = Some Unparseable \<longrightarrow>
            load_data py_int fs c = (Inl ParserError, c))
      \<and> (fs ''countrylevel.csv'' = Some (Csv raw)
            \<and> (\<exists>r \<in> set raw. raw_year r = FloatCell NaN
                  \<or> (\<exists>s. raw_year r = StrCell s \<and> py_int s = None))
          \<longrightarrow> load_data py_int fs c = (Inl ValueError, c)))
   \<and> (c ''load_industry_data'' = None \<longrightarrow>
      (fs ''industrylevel.csv'' = None \<longrightarrow>
            load_industry_data py_int fs c = (Inl FileNotFoundError, c))
      \<and> (fs ''industrylevel.csv'' = Some Unparseable \<longrightarrow>
            load_industry_data py_int fs c = (Inl ParserError, c))
      \<and> (fs ''industrylevel.csv'' = Some (Csv raw)
            \<and> (\<exists>r \<in> set raw. raw_year r = FloatCell NaN
                  \<or> (\<exists>s. raw_year r = StrCell s \<and> py_int s = None))
          \<longrightarrow> load_industry_data py_int fs c = (Inl ValueError, c)))
   \<and> (load_data py_int fs c = (Inl e, c') \<longrightarrow>
        c' = c \<and> e \<in> {FileNotFoundError, ParserError, ValueError})
   \<and> (load_industry_data py_int fs c = (Inl e, c') \<longrightarrow>
        c' = c \<and> e \<in> {FileNotFoundError, ParserError, ValueError})"
proof (intro conjI impI)
  assume "c ''load_data'' = None" "fs ''countrylevel.csv'' = None"
  then show "load_data py_int fs c = (Inl FileNotFoundError, c)"
    unfolding load_data_def by (intro cache_data_cold) (simp_all add: load_data_body_cases)
next
  assume "c ''load_data'' = None" "fs ''countrylevel.csv'' = Some Unparseable"
  then show "load_data py_int fs c = (Inl ParserError, c)"
    unfolding load_data_def by (intro cache_data_cold) (simp_all add: load_data_body_cases)
next
  assume cold: "c ''load_data'' = None"
    and h: "fs ''countrylevel.csv'' = Some (Csv raw)
      \<and> (\<exists>r \<in> set raw. raw_year r = FloatCell NaN
            \<or> (\<exists>s. raw_year r = StrCell s \<and> py_int s = None))"
  from h have "astype_int_column py_int (map raw_year raw) = Inl ValueError"
    by (intro bad_year_column) simp
  with h have "load_data_body py_int fs = Inl ValueError"
    by (simp add: load_data_body_cases)
  with cold show "load_data py_int fs c = (Inl ValueError, c)"
    unfolding load_data_def by (intro cache_data_cold)
next
  assume "c ''load_industry_data'' = None" "fs ''industrylevel.csv'' = None"
  then show "load_industry_data py_int fs c = (Inl FileNotFoundError, c)"
    unfolding load_industry_data_def
    by (intro cache_data_cold) (simp_all add: load_industry_data_body_cases)
next
  assume "c ''load_industry_data'' = None" "fs ''industrylevel.csv'' = Some Unparseable"
  then show "load_industry_data py_int fs c = (Inl ParserError, c)"
    unfolding load_industry_data_def
    by (intro cache_data_cold) (simp_all add: load_industry_data_body_cases)
next
  assume cold: "c ''load_industry_data'' = None"
    and h: "fs ''industrylevel.csv'' = Some (Csv raw)
      \<and> (\<exists>r \<in> set raw. raw_year r = FloatCell NaN
            \<or> (\<exists>s. raw_year r = StrCell s \<and> py_int s = None))"
  from h have "astype_int_column py_int (map raw_year raw) = Inl ValueError"
    by (intro bad_year_column) simp
  with h have "load_industry_data_body py_int fs = Inl ValueError"
    by (simp add: load_industry_data_body_cases)
  with cold show "load_industry_data py_int fs c = (Inl ValueError, c)"
    unfolding load_industry_data_def by (intro cache_data_cold)
next
  assume "load_data py_int fs c = (Inl e, c')"
  then have "c' = c" "load_data_body py_int fs = Inl e"
    unfolding load_data_def by (auto dest: cache_data_failure)
  then show "c' = c" "e \<in> {FileNotFoundError, ParserError, ValueError}"
    by (auto simp: load_data_body_cases split: option.splits csv_file.splits sum.splits)
next
  assume "load_industry_data py_int fs c = (Inl e, c')"
  then have "c' = c" "load_industry_data_body py_int fs = Inl e"
    unfolding load_industry_data_def by (auto dest: cache_data_failure)
  then show "c' = c" "e \<in> {FileNotFoundError, ParserError, ValueError}"
    by (auto simp: load_industry_data_body_cases split: option.splits csv_file.splits sum.splits)
qed

text \<open>
  With no file at all the country loader fails with FileNotFoundError; with the text
  \<^verbatim>\<open>n/a\<close> in the year column of the second row the industry loader fails with ValueError.
\<close>

theorem load_failures_witness:
  "load_data sample_py_int no_files empty_cache = (Inl FileNotFoundError, empty_cache)
   \<and> load_industry_data sample_py_int bad_year_files empty_cache = (Inl ValueError, empty_cache)"
  using load_failures [of empty_cache no_files sample_py_int sample_raw_bad]
    load_failures [of empty_cache bad_year_files sample_py_int sample_raw_bad]
  by (simp add: empty_cache_def no_files_def bad_year_files_def sample_raw_bad_def
      sample_py_int_def)

text \<open>The same two inputs: neither failure is a \<open>DataLoadError\<close>.\<close>

theorem load_error_class_counterexample:
  "fst (load_data sample_py_int no_files empty_cache) = Inl FileNotFoundError
   \<and> fst (load_data sample_py_int no_files empty_cache) \<noteq> Inl DataLoadError
   \<and> fst (load_data sample_py_int bad_year_files empty_cache) = Inl ValueError
   \<and> fst (load_data sample_py_int bad_year_files empty_cache) \<noteq> Inl DataLoadError"
  by (simp add: load_data_def cache_data_def load_data_body_def read_csv_def empty_cache_def
      no_files_def bad_year_files_def sample_raw_bad_def sample_py_int_def)

text \<open>
  C8. When a loader has returned a table, every later call returns the same table and
  leaves the cache as it is, whatever the file then holds: the body does not run again.
  A call of the other loader in between changes nothing of that. On a call with nothing
  in the cache the decorated loader returns what its body returns.
\<close>

theorem load_twice:
  "(load_data py_int fs c = (Inr df, c') \<longrightarrow>
      load_data py_int' fs' c' = (Inr df, c')
      \<and> (load_industry_data py_int1 fs1 c' = (res, c'') \<longrightarrow>
            load_data py_int' fs' c'' = (Inr df, c'')))
   \<and> (load_industry_data py_int fs c = (Inr df, c') \<longrightarrow>
      load_industry_data py_int' fs' c' = (Inr df, c')
      \<and> (load_data py_int1 fs1 c' = (res, c'') \<longrightarrow>
            load_industry_data py_int' fs' c'' = (Inr df, c'')))
   \<and> (c ''load_data'' = None \<longrightarrow> fst (load_data py_int fs c) = load_data_body py_int fs)
   \<and> (c ''load_industry_data'' = None \<longrightarrow>
        fst (load_industry_data py_int fs c) = load_industry_data_body py_int fs)"
proof (intro conjI impI)
  assume "load_data py_int fs c = (Inr df, c')"
  then have hit: "c' ''load_data'' = Some df"
    unfolding load_data_def by (rule cache_data_stored)
  then show "load_data py_int' fs' c' = (Inr df, c')"
    unfolding load_data_def by (rule cache_data_hit)
  assume "load_industry_data py_int1 fs1 c' = (res, c'')"
  then have "c'' ''load_data'' = c' ''load_data''"
    unfolding load_industry_data_def by (rule cache_data_other) simp
  with hit show "load_data py_int' fs' c'' = (Inr df, c'')"
    unfolding load_data_def by (intro cache_data_hit) simp
next
  assume "load_industry_data py_int fs c = (Inr df, c')"
  then have hit: "c' ''load_industry_data'' = Some df"
    unfolding load_industry_data_def by (rule cache_data_stored)
  then show "load_industry_data py_int' fs' c' = (Inr df, c')"
    unfolding load_industry_data_def by (rule cache_data_hit)
  assume "load_data py_int1 fs1 c' = (res, c'')"
  then have "c'' ''load_industry_data'' = c' ''load_industry_data''"
    unfolding load_data_def by (rule cache_data_other) simp
  with hit show "load_industry_data py_int' fs' c'' = (Inr df, c'')"
    unfolding load_industry_data_def by (intro cache_data_hit) simp
next
  assume "c ''load_data'' = None"
  then show "fst (load_data py_int fs c) = load_data_body py_int fs"
    by (simp add: load_data_def cache_data_def split: sum.splits)
next
  assume "c ''load_industry_data'' = None"
  then show "fst (load_industry_data py_int fs c) = load_industry_data_body py_int fs"
    by (simp add: load_industry_data_def cache_data_def split: sum.splits)
qed

text \<open>
  The first call reads the sample file; the second call, made after the file has gone,
  returns the table of the first.
\<close>

theorem load_twice_witness:
  "fst (load_data sample_py_int good_files empty_cache) = Inr sample_loaded
   \<and> fst (load_data sample_py_int no_files (snd (load_data sample_py_int good_files empty_cache)))
      = Inr sample_loaded"
  using load_twice [of sample_py_int good_files empty_cache sample_loaded
      "snd (load_data sample_py_int good_files empty_cache)" sample_py_int no_files]
  by (simp add: load_data_def cache_data_def load_data_body_def read_csv_def empty_cache_def
      good_files_def sample_raw_def sample_loaded_def set_year_def)

end
